theory Spec2Isabelle
  imports Complex_Main "HOL-Library.Word"
begin

unbundle bit_operations_syntax

section \<open>Timing constants of the experiment (gaba\_gauss1.c, lines 63--71)\<close>

text \<open>
  The source declares the timing values as C \<^verbatim>\<open>float\<close>s and derives the four
  free-evolution intervals from them.  The model reads these formulas in exact real
  arithmetic; the waveform length \<^verbatim>\<open>pw\<close> is the C \<^verbatim>\<open>int\<close> of line 45.  The flip
  angle of line 122, which depends on the samples, is computed in IEEE arithmetic
  further down.
\<close>

definition t_te :: real where
  "t_te = 0.068"

definition t_dwell :: real where
  "t_dwell = 0.000032"

definition t_12 :: real where
  "t_12 = 0.006"

definition t_2g1 :: "int \<Rightarrow> real" where
  "t_2g1 pw = (t_12 + t_te / 2) / 2 - t_12 - of_int pw * t_dwell / 2"

definition t_g13 :: "int \<Rightarrow> real" where
  "t_g13 pw = t_te / 2 - t_2g1 pw - of_int pw * t_dwell"

definition t_3g2 :: "int \<Rightarrow> real" where
  "t_3g2 pw = (t_te / 2 - t_12) / 2 - of_int pw * t_dwell / 2"

definition t_g2r :: "int \<Rightarrow> real" where
  "t_g2r pw = (t_te / 2 - t_12) - t_3g2 pw - of_int pw * t_dwell"

text \<open>The duration of one shaped pulse, printed as \<^verbatim>\<open>T_pulse\<close> (lines 74 and 77).\<close>

definition t_pulse :: "int \<Rightarrow> real" where
  "t_pulse pw = of_int pw * t_dwell"

definition angle_factor :: real where
  "angle_factor = 0.24 / 0.24"

section \<open>IEEE-754 values and rounding\<close>

text \<open>
  The value of a C \<^verbatim>\<open>float\<close> or \<^verbatim>\<open>double\<close>: a real number, an infinity or a
  NaN.  The two zeros are the one value \<open>Finite 0\<close>; the program never divides by a
  variable, so their sign cannot show.
\<close>

datatype fp_value = Finite real | PlusInf | MinusInf | NaN

definition pow2 :: "int \<Rightarrow> real" where
  "pow2 k = (if 0 \<le> k then 2 ^ nat k else 1 / 2 ^ nat (- k))"

text \<open>Rounding to the nearest integer, ties to the even one.\<close>

definition round_even :: "real \<Rightarrow> int" where
  "round_even x =
     (let f = \<lfloor>x\<rfloor>; d = x - of_int f
      in if d < 1 / 2 then f else if 1 / 2 < d then f + 1 else if even f then f else f + 1)"

text \<open>
  Rounding of a real \<open>x\<close> with binary exponent \<open>k\<close> to the format of precision \<open>p\<close>
  and exponent range \<open>emin \<dots> emax\<close>, in the default mode (to nearest, ties to even):
  below \<open>emin\<close> the spacing of the subnormal numbers applies, and a result of magnitude
  \<open>2^(emax+1)\<close> or more is an infinity.
\<close>

definition fp_round_at :: "nat \<Rightarrow> int \<Rightarrow> int \<Rightarrow> int \<Rightarrow> real \<Rightarrow> fp_value" where
  "fp_round_at p emin emax k x =
     (let e = max k emin;
          ulp = pow2 (e - int p + 1);
          r = of_int (round_even (x / ulp)) * ulp
      in if pow2 (emax + 1) \<le> \<bar>r\<bar> then (if 0 < x then PlusInf else MinusInf) else Finite r)"

definition fp_round :: "nat \<Rightarrow> int \<Rightarrow> int \<Rightarrow> real \<Rightarrow> fp_value" where
  "fp_round p emin emax x =
     (if x = 0 then Finite 0 else fp_round_at p emin emax \<lfloor>log 2 \<bar>x\<bar>\<rfloor> x)"

text \<open>binary32 (\<^verbatim>\<open>float\<close>) and binary64 (\<^verbatim>\<open>double\<close>).\<close>

definition to_float :: "real \<Rightarrow> fp_value" where
  "to_float = fp_round 24 (- 126) 127"

definition to_double :: "real \<Rightarrow> fp_value" where
  "to_double = fp_round 53 (- 1022) 1023"

text \<open>
  The value of the \<^verbatim>\<open>float\<close> object with the given 32 bits: sign bit, eight bits of
  biased exponent, 23 bits of fraction.
\<close>

definition float_val :: "32 word \<Rightarrow> fp_value" where
  "float_val w =
     (let e = unat (take_bit 8 (drop_bit 23 w));
          m = unat (take_bit 23 w);
          sg = (if bit w 31 then - 1 else 1)
      in if e = 255 then (if m = 0 then (if bit w 31 then MinusInf else PlusInf) else NaN)
         else if e = 0 then Finite (sg * real m * pow2 (- 149))
         else Finite (sg * real (2 ^ 23 + m) * pow2 (int e - 150)))"

text \<open>
  One more operation on a value: an infinity or a NaN stays what it is.  This is the
  rule for multiplying or dividing by a positive finite constant, the only operations of
  line 122.
\<close>

definition fp_then :: "fp_value \<Rightarrow> (real \<Rightarrow> fp_value) \<Rightarrow> fp_value" where
  "fp_then x f = (case x of Finite a \<Rightarrow> f a | PlusInf \<Rightarrow> PlusInf | MinusInf \<Rightarrow> MinusInf | NaN \<Rightarrow> NaN)"

section \<open>The external operations (gamma.h, libc)\<close>

text \<open>
  The program is a single \<^verbatim>\<open>main\<close> that drives the GAMMA library.  The types
  \<^verbatim>\<open>spin_system\<close> and \<^verbatim>\<open>gen_op\<close> and the functions on them are declared in
  \<^verbatim>\<open>gamma.h\<close>, which is not part of the source file; they are taken as parameters,
  collected in one record.  \<^verbatim>\<open>atoi\<close> is a parameter as well.  \<open>expectationValue\<close>
  is the trace of a product of two operators, which the signal acquisition samples.  The
  flip angle that \<^verbatim>\<open>Ixypuls\<close> receives is the \<^verbatim>\<open>float\<close> of line 122, which can be
  an infinity or a NaN; the other angles and the durations are finite constants.
\<close>

type_synonym byte = "8 word"
type_synonym float_bits = "32 word"

record ('sys, 'op) gamma =
  atoi :: "string \<Rightarrow> int"
  offsetShifts :: "'sys \<Rightarrow> real \<Rightarrow> 'sys"
  sigma_eq :: "'sys \<Rightarrow> 'op"
  Ho :: "'sys \<Rightarrow> 'op"
  Fm :: "'sys \<Rightarrow> 'op"
  prop_g :: "'op \<Rightarrow> real \<Rightarrow> 'op"
  evolve :: "'op \<Rightarrow> 'op \<Rightarrow> 'op"
  Iypuls :: "'sys \<Rightarrow> 'op \<Rightarrow> real \<Rightarrow> 'op"
  Ixypuls :: "'sys \<Rightarrow> 'op \<Rightarrow> real \<Rightarrow> fp_value \<Rightarrow> 'op"
  expectationValue :: "'op \<Rightarrow> 'op \<Rightarrow> complex"

text \<open>
  What a run reads: the command line, the bytes of \<^verbatim>\<open>gaba_gauss_gamma.wav\<close>
  (\<open>None\<close> when \<^verbatim>\<open>fopen\<close> returns \<^verbatim>\<open>NULL\<close>) and the spin system that
  \<^verbatim>\<open>sys.read("gaba_gauss_on1.sys")\<close> yields.
\<close>

record 'sys input =
  argv :: "string list"
  wav_file :: "byte list option"
  sys_file :: 'sys

text \<open>The three \<^verbatim>\<open>exit\<close> calls of lines 24, 34 and 40.\<close>

datatype exit_status = Exit0 | FileError | MemoryError

section \<open>Loading the waveform (lines 32--45)\<close>

text \<open>
  \<^verbatim>\<open>rf_size\<close> is a C \<^verbatim>\<open>int\<close> that receives the \<^verbatim>\<open>long\<close> returned by
  \<^verbatim>\<open>ftell\<close>: on an LP64 host the file size is cut to its low 32 bits, read as two's
  complement.
\<close>

definition ftell_int :: "byte list \<Rightarrow> int" where
  "ftell_int bytes = sint (word_of_nat (length bytes) :: 32 word)"

text \<open>Four consecutive bytes make one \<^verbatim>\<open>float\<close> object (little-endian host).\<close>

definition float_of_bytes :: "byte \<Rightarrow> byte \<Rightarrow> byte \<Rightarrow> byte \<Rightarrow> float_bits" where
  "float_of_bytes a b c d =
     ucast a OR push_bit 8 (ucast b) OR push_bit 16 (ucast c) OR push_bit 24 (ucast d)"

text \<open>
  \<^verbatim>\<open>fread(rho, sizeof(float), count, fid)\<close> from the start of the file: up to
  \<open>count\<close> items of four bytes, in file order; it stops early when the file has no
  complete item left.
\<close>

fun fread :: "nat \<Rightarrow> byte list \<Rightarrow> float_bits list" where
  "fread 0 bs = []"
| "fread (Suc n) (a # b # c # d # bs) = float_of_bytes a b c d # fread n bs"
| "fread (Suc n) bs = []"

text \<open>
  Lines 32--45.  \<^verbatim>\<open>malloc(rf_size)\<close> converts a negative \<^verbatim>\<open>rf_size\<close> to a
  \<^verbatim>\<open>size_t\<close> of at least \<open>2^64 - 2^31\<close> bytes, which no allocator grants: the run
  ends with \<^verbatim>\<open>exit(2)\<close>.  Otherwise the allocation is taken to succeed, the buffer
  \<^verbatim>\<open>rho\<close> holds the items read and \<^verbatim>\<open>pw = rf_size / sizeof(float)\<close>.  What the
  program prints is not part of the model; lines 48--49 print \<^verbatim>\<open>rho[0]\<close> to
  \<^verbatim>\<open>rho[9]\<close> whatever \<^verbatim>\<open>pw\<close> is.
\<close>

definition load_waveform :: "byte list option \<Rightarrow> exit_status + int \<times> float_bits list" where
  "load_waveform f =
     (case f of
        None \<Rightarrow> Inl FileError
      | Some bytes \<Rightarrow>
          (let rf_size = ftell_int bytes in
           if rf_size < 0 then Inl MemoryError
           else (let rho = fread (nat (rf_size div 4)) bytes;
                     pw = rf_size div 4
                 in Inr (pw, rho))))"

section \<open>The shaped editing pulse (lines 119--126 and 131--138)\<close>

text \<open>
  Line 122: \<^verbatim>\<open>angle=rho[i]*angle_factor*180/3.14159\<close>.  The two products are
  \<^verbatim>\<open>float\<close> multiplications (\<^verbatim>\<open>angle_factor\<close> is the \<^verbatim>\<open>float\<close> 1, and 180 is
  converted to \<^verbatim>\<open>float\<close>), the division is a \<^verbatim>\<open>double\<close> division by the
  \<^verbatim>\<open>double\<close> nearest to 3.14159, and the assignment rounds the quotient to
  \<^verbatim>\<open>float\<close>.
\<close>

definition flip_angle :: "fp_value \<Rightarrow> fp_value" where
  "flip_angle amplitude =
     fp_then (to_double 3.14159) (\<lambda>d.
       fp_then
         (fp_then
            (fp_then
               (fp_then amplitude (\<lambda>a. to_float (a * angle_factor)))
               (\<lambda>b. to_float (b * 180)))
            (\<lambda>c. to_double (c / d)))
         to_float)"

text \<open>The body of the loop, lines 122--125.\<close>

definition mega_press_step ::
  "('sys, 'op) gamma \<Rightarrow> 'sys \<Rightarrow> 'op \<Rightarrow> 'op \<Rightarrow> float_bits \<Rightarrow> 'op" where
  "mega_press_step L sys udelay_dwell sigma1 s =
     (let angle = flip_angle (float_val s);
          sigma1 = Ixypuls L sys sigma1 0 angle
      in evolve L sigma1 udelay_dwell)"

text \<open>
  \<^verbatim>\<open>for(i=0;i<pw;i++)\<close> with the running index \<open>i\<close>; \<open>main\<close> enters it at
  \<open>i = 0\<close> with \<open>pw\<close> the number of items in \<open>rho\<close>.
\<close>

function mega_press ::
  "('sys, 'op) gamma \<Rightarrow> 'sys \<Rightarrow> 'op \<Rightarrow> float_bits list \<Rightarrow> int \<Rightarrow> int \<Rightarrow> 'op \<Rightarrow> 'op" where
  "mega_press L sys udelay_dwell rho pw i sigma1 =
     (if i < pw
      then mega_press L sys udelay_dwell rho pw (i + 1)
             (mega_press_step L sys udelay_dwell sigma1 (rho ! nat i))
      else sigma1)"
  by pat_completeness auto
termination
  by (relation "measure (\<lambda>(L, sys, u, rho, pw, i, sigma1). nat (pw - i))") auto

declare mega_press.simps [simp del]

section \<open>Signal acquisition\<close>

text \<open>
  Modelled from the spec: the function \<^verbatim>\<open>FID\<close> of the GAMMA library, called at
  line 143, has no body in the source file.  Section 4.5 of the specification describes
  it: for each of \<open>M\<close> samples, first record the expectation value of the detection
  operator, then evolve the density operator by one acquisition dwell.
\<close>

fun FID_samples :: "('sys, 'op) gamma \<Rightarrow> 'op \<Rightarrow> 'op \<Rightarrow> 'op \<Rightarrow> nat \<Rightarrow> complex list" where
  "FID_samples L rho D U 0 = []"
| "FID_samples L rho D U (Suc m) =
     expectationValue L rho D # FID_samples L (evolve L rho U) D U m"

definition FID :: "('sys, 'op) gamma \<Rightarrow> 'op \<Rightarrow> 'op \<Rightarrow> 'op \<Rightarrow> real \<Rightarrow> nat \<Rightarrow> complex list" where
  "FID L sigma D H td M = FID_samples L sigma D (prop_g L H td) M"

section \<open>The pulse sequence and the program (lines 23--145)\<close>

text \<open>
  Lines 82--139, from the equilibrium operator to the operator handed to \<^verbatim>\<open>FID\<close>.
  The propagators of lines 95--102 are computed and never used; they are left out.
\<close>

definition sequence :: "('sys, 'op) gamma \<Rightarrow> 'sys \<Rightarrow> int \<Rightarrow> float_bits list \<Rightarrow> 'op" where
  "sequence L sys pw rho =
     (let sigma0 = sigma_eq L sys;
          H = Ho L sys;
          udelay1 = prop_g L H t_12;
          udelay2g1 = prop_g L H (t_2g1 pw);
          udelayg13 = prop_g L H (t_g13 pw);
          udelay3g2 = prop_g L H (t_3g2 pw);
          udelayg2r = prop_g L H (t_g2r pw);
          udelay_dwell = prop_g L H t_dwell;
          sigma1 = Iypuls L sys sigma0 90;
          sigma1 = evolve L sigma1 udelay1;
          sigma1 = Iypuls L sys sigma1 180;
          sigma1 = evolve L sigma1 udelay2g1;
          sigma1 = mega_press L sys udelay_dwell rho pw 0 sigma1;
          sigma1 = evolve L sigma1 udelayg13;
          sigma1 = Iypuls L sys sigma1 180;
          sigma1 = evolve L sigma1 udelay3g2;
          sigma1 = mega_press L sys udelay_dwell rho pw 0 sigma1;
          sigma1 = evolve L sigma1 udelayg2r
      in sigma1)"

text \<open>
  What \<^verbatim>\<open>MATLAB(outfile,"test_fid",data)\<close> receives: the file name, the variable
  name and the block of samples.
\<close>

record matlab_output =
  outfile :: string
  varname :: string
  data :: "complex list"

definition main :: "('sys, 'op) gamma \<Rightarrow> 'sys input \<Rightarrow> exit_status + matlab_output" where
  "main L inp =
     (if length (argv inp) \<noteq> 3 then Inl Exit0
      else
        (let out = argv inp ! 1;
             offset1 = atoi L (argv inp ! 2)
         in case load_waveform (wav_file inp) of
              Inl e \<Rightarrow> Inl e
            | Inr (pw, rho) \<Rightarrow>
                (let sys = offsetShifts L (sys_file inp) (of_int offset1);
                     H = Ho L sys;
                     detect = Fm L sys;
                     sigma1 = sequence L sys pw rho
                 in Inr \<lparr>outfile = out, varname = ''test_fid'',
                          data = FID L sigma1 detect H 0.0002 2048\<rparr>)))"

section \<open>The specification's description of the sequence\<close>

text \<open>
  The waveform input in the specification's words (section 6): 32-bit samples without a
  header, as many as the file size divided by four, in file order.
\<close>

definition waveform_of_file :: "byte list \<Rightarrow> float_bits list" where
  "waveform_of_file bytes =
     map (\<lambda>k. float_of_bytes (bytes ! (4 * k)) (bytes ! (4 * k + 1))
                 (bytes ! (4 * k + 2)) (bytes ! (4 * k + 3)))
       [0..<length bytes div 4]"

text \<open>
  The Shaped-Pulse Driver in the specification's words: for each sample in order, apply
  the rotation of the sample's flip angle at the given phase, then the free precession of
  one dwell.  The conversion from amplitude to angle is an argument.
\<close>

definition shaped_pulse_driver ::
  "('sys, 'op) gamma \<Rightarrow> 'sys \<Rightarrow> 'op \<Rightarrow> real \<Rightarrow> real \<Rightarrow> (fp_value \<Rightarrow> fp_value) \<Rightarrow>
   float_bits list \<Rightarrow> 'op \<Rightarrow> 'op" where
  "shaped_pulse_driver L sys H dwell phase angle_of waveform rho =
     foldl (\<lambda>r s. evolve L (Ixypuls L sys r phase (angle_of (float_val s))) (prop_g L H dwell))
       rho waveform"

text \<open>
  The transitions of the Sequence Orchestrator (section 4.4).  \<open>HardPulseY \<beta>\<close> is a
  pulse of flip angle \<open>\<beta>\<close> at phase 90 degrees, that is about the y axis
  (\<^verbatim>\<open>Iypuls\<close>).
\<close>

datatype transition =
  HardPulseY real
| FreeEvolution real
| ShapedPulse "float_bits list"

fun apply_transition :: "('sys, 'op) gamma \<Rightarrow> 'sys \<Rightarrow> 'op \<Rightarrow> 'op \<Rightarrow> transition \<Rightarrow> 'op" where
  "apply_transition L sys H rho (HardPulseY beta) = Iypuls L sys rho beta"
| "apply_transition L sys H rho (FreeEvolution t) = evolve L rho (prop_g L H t)"
| "apply_transition L sys H rho (ShapedPulse w) =
     shaped_pulse_driver L sys H t_dwell 0 flip_angle w rho"

definition mega_press_transitions :: "int \<Rightarrow> float_bits list \<Rightarrow> transition list" where
  "mega_press_transitions N waveform =
     [HardPulseY 90, FreeEvolution t_12,
      HardPulseY 180, FreeEvolution (t_2g1 N),
      ShapedPulse waveform, FreeEvolution (t_g13 N),
      HardPulseY 180, FreeEvolution (t_3g2 N),
      ShapedPulse waveform, FreeEvolution (t_g2r N)]"

section \<open>Operators as complex matrices\<close>

text \<open>
  Modelled from the spec: the operator type \<^verbatim>\<open>gen_op\<close> and the functions
  \<^verbatim>\<open>evolve\<close> and \<^verbatim>\<open>prop\<close> of the GAMMA library have no body in the source file.
  Section 3 of the specification describes an operator as a complex square matrix whose
  side is the dimension of the Hilbert space; here it is a function from row and column
  index to the entry, beside the dimension \<open>n\<close>.
\<close>

type_synonym cmat = "nat \<Rightarrow> nat \<Rightarrow> complex"

definition mat_one :: cmat where
  "mat_one = (\<lambda>i j. if i = j then 1 else 0)"

definition mat_mul :: "nat \<Rightarrow> cmat \<Rightarrow> cmat \<Rightarrow> cmat" where
  "mat_mul n A B = (\<lambda>i j. \<Sum>k<n. A i k * B k j)"

definition dagger :: "cmat \<Rightarrow> cmat" where
  "dagger A = (\<lambda>i j. cnj (A j i))"

definition mat_trace :: "nat \<Rightarrow> cmat \<Rightarrow> complex" where
  "mat_trace n A = (\<Sum>i<n. A i i)"

definition mat_eq :: "nat \<Rightarrow> cmat \<Rightarrow> cmat \<Rightarrow> bool" where
  "mat_eq n A B \<longleftrightarrow> (\<forall>i\<in>{..<n}. \<forall>j\<in>{..<n}. A i j = B i j)"

definition hermitian :: "nat \<Rightarrow> cmat \<Rightarrow> bool" where
  "hermitian n A \<longleftrightarrow> mat_eq n (dagger A) A"

definition unitary :: "nat \<Rightarrow> cmat \<Rightarrow> bool" where
  "unitary n U \<longleftrightarrow> mat_eq n (mat_mul n (dagger U) U) mat_one \<and>
                  mat_eq n (mat_mul n U (dagger U)) mat_one"

text \<open>
  Modelled from the spec: section 4.2, \<open>apply(U, rho)\<close> returns \<open>U \<cdot> rho \<cdot> U\<^sup>\<dagger>\<close>
  (the call \<^verbatim>\<open>evolve(sigma1, U)\<close> of the source).
\<close>

definition apply_op :: "nat \<Rightarrow> cmat \<Rightarrow> cmat \<Rightarrow> cmat" where
  "apply_op n U rho = mat_mul n (mat_mul n U rho) (dagger U)"

text \<open>
  Modelled from the spec: section 4.2, \<open>freePrecessionPropagator(H, duration)\<close> is the
  matrix exponential of \<open>-i \<cdot> H \<cdot> duration\<close> and fails with \<open>InvalidArgument\<close> if the
  duration is negative (the call \<^verbatim>\<open>prop(H, t)\<close> of the source).  The exponential is
  the power series, entry by entry.
\<close>

datatype error = ConfigurationError | InvalidArgument | InvalidDimension | NumericInstability

fun mat_pow :: "nat \<Rightarrow> cmat \<Rightarrow> nat \<Rightarrow> cmat" where
  "mat_pow n A 0 = mat_one"
| "mat_pow n A (Suc k) = mat_mul n A (mat_pow n A k)"

definition mat_exp :: "nat \<Rightarrow> cmat \<Rightarrow> cmat" where
  "mat_exp n A = (\<lambda>i j. \<Sum>k. mat_pow n A k i j / fact k)"

definition freePrecessionPropagator :: "nat \<Rightarrow> cmat \<Rightarrow> real \<Rightarrow> error + cmat" where
  "freePrecessionPropagator n H duration =
     (if duration < 0 then Inl InvalidArgument
      else Inr (mat_exp n (\<lambda>i j. - \<i> * H i j * of_real duration)))"

text \<open>A matrix written as the list of its rows; entries outside are zero.\<close>

definition mat_of_rows :: "complex list list \<Rightarrow> cmat" where
  "mat_of_rows rows =
     (\<lambda>i j. if i < length rows \<and> j < length (rows ! i) then rows ! i ! j else 0)"

section \<open>A small instance of the external operations\<close>

text \<open>
  Operators are single real numbers here, pulses and delays add to them.  The instance
  serves to run the model on concrete inputs; the waveform of the test input holds the
  samples \<open>1.0\<close> and \<open>2.0\<close>.
\<close>

definition test_gamma :: "(unit, real) gamma" where
  "test_gamma =
     \<lparr>atoi = (\<lambda>s. 0),
      offsetShifts = (\<lambda>sys x. sys),
      sigma_eq = (\<lambda>sys. 1),
      Ho = (\<lambda>sys. 2),
      Fm = (\<lambda>sys. 3),
      prop_g = (\<lambda>H t. H * t),
      evolve = (\<lambda>sigma U. sigma + U),
      Iypuls = (\<lambda>sys sigma beta. sigma + beta),
      Ixypuls = (\<lambda>sys sigma phi beta. sigma + phi + (case beta of Finite b \<Rightarrow> b | _ \<Rightarrow> 0)),
      expectationValue = (\<lambda>sigma D. complex_of_real (sigma * D))\<rparr>"

definition test_input :: "unit input" where
  "test_input =
     \<lparr>argv = [''gaba_gauss1'', ''out.mat'', ''0''],
      wav_file = Some [0, 0, 128, 63, 0, 0, 0, 64],
      sys_file = ()\<rparr>"

definition test_output :: matlab_output where
  "test_output =
     \<lparr>outfile = ''out.mat'', varname = ''test_fid'',
      data = FID test_gamma (6511910737 / 8192000) 3 2 0.0002 2048\<rparr>"

text \<open>
  A waveform file of \<open>2^32 + 8\<close> bytes: the samples \<open>1.0\<close> and \<open>2.0\<close>, then zeros.
\<close>

definition big_wav :: "byte list" where
  "big_wav = [0, 0, 128, 63, 0, 0, 0, 64] @ replicate (2 ^ 32) 0"

lemmas timing_defs = t_te_def t_dwell_def t_12_def t_2g1_def t_g13_def t_3g2_def t_g2r_def

section \<open>Interval arithmetic\<close>

lemma intervals_closure:
  "t_2g1 pw + t_g13 pw + t_3g2 pw + t_g2r pw + t_12 + 2 * of_int pw * t_dwell = t_te"
  by (simp add: t_2g1_def t_g13_def t_3g2_def t_g2r_def)

text \<open>
  The intervals are non-negative up to 875 samples (a file of 3500 bytes); a longer
  waveform makes \<open>t_2g1\<close> negative, and \<open>main\<close> passes it to \<^verbatim>\<open>prop\<close> all the same.
\<close>

lemma intervals_nonneg:
  assumes "pw \<le> 875"
  shows "0 \<le> t_2g1 pw" "0 \<le> t_g13 pw" "0 \<le> t_3g2 pw" "0 \<le> t_g2r pw"
proof -
  have "(of_int pw :: real) \<le> of_int 875" using assms by (simp only: of_int_le_iff)
  then show "0 \<le> t_2g1 pw" "0 \<le> t_g13 pw" "0 \<le> t_3g2 pw" "0 \<le> t_g2r pw"
    by (simp_all add: timing_defs)
qed

lemma t_2g1_negative:
  assumes "875 < pw"
  shows "t_2g1 pw < 0"
proof -
  have "(of_int 875 :: real) < of_int pw" using assms by (simp only: of_int_less_iff)
  then show ?thesis by (simp add: timing_defs)
qed

lemma intervals_values_4:
  "t_2g1 4 = 0.013936" "t_g13 4 = 0.019936" "t_3g2 4 = 0.013936" "t_g2r 4 = 0.013936"
  by (simp_all add: timing_defs)

section \<open>The waveform loader\<close>

lemma length_fread: "4 * n \<le> length bs \<Longrightarrow> length (fread n bs) = n"
  by (induction n bs rule: fread.induct) auto

lemma fread_nth:
  "k < n \<Longrightarrow> 4 * n \<le> length bs \<Longrightarrow>
   fread n bs ! k =
     float_of_bytes (bs ! (4 * k)) (bs ! (4 * k + 1)) (bs ! (4 * k + 2)) (bs ! (4 * k + 3))"
proof (induction n bs arbitrary: k rule: fread.induct)
  case (2 n a b c d bs)
  then show ?case by (cases k) (auto simp: numeral_eq_Suc)
qed auto

lemma ftell_int_eq: "ftell_int bs = signed_take_bit 31 (int (length bs))"
  by (simp add: ftell_int_def signed_of_nat)

lemma ftell_int_small: "length bs < 2 ^ 31 \<Longrightarrow> ftell_int bs = int (length bs)"
proof -
  assume "length bs < 2 ^ 31"
  then have "int (length bs) < 2 ^ 31" by (metis of_nat_less_iff of_nat_numeral of_nat_power)
  then show ?thesis
    by (simp add: ftell_int_eq signed_take_bit_int_eq_self)
qed

lemma ftell_int_le: "nat (ftell_int bs) \<le> length bs"
proof -
  have "signed_take_bit 31 (int (length bs)) \<le> take_bit 32 (int (length bs))"
    by (simp add: signed_take_bit_eq_take_bit_minus)
  also have "\<dots> \<le> int (length bs)"
    by (simp add: take_bit_int_less_eq_self_iff)
  finally show ?thesis by (simp add: ftell_int_eq)
qed

lemma load_waveform_length:
  assumes "load_waveform f = Inr (pw, rho)"
  shows "pw = int (length rho)"
proof -
  from assms obtain bytes where f: "f = Some bytes" and nonneg: "0 \<le> ftell_int bytes"
    and pw: "pw = ftell_int bytes div 4" and rho: "rho = fread (nat (ftell_int bytes div 4)) bytes"
    by (auto simp: load_waveform_def Let_def split: option.splits if_splits)
  have "4 * nat (ftell_int bytes div 4) \<le> nat (ftell_int bytes)"
    using nonneg by linarith
  also have "\<dots> \<le> length bytes" by (rule ftell_int_le)
  finally have "length rho = nat (ftell_int bytes div 4)"
    unfolding rho by (rule length_fread)
  then show ?thesis using nonneg pw by simp
qed

lemma load_waveform_small:
  assumes "length bytes < 2 ^ 31"
  shows "load_waveform (Some bytes) =
           Inr (int (length bytes div 4), fread (length bytes div 4) bytes)"
proof -
  have "nat (int (length bytes) div 4) = length bytes div 4"
    by (simp add: nat_div_distrib)
  moreover have "int (length bytes) div 4 = int (length bytes div 4)"
    by (simp add: zdiv_int)
  ultimately show ?thesis
    by (simp add: load_waveform_def ftell_int_small [OF assms] Let_def)
qed

section \<open>The loop of the shaped pulse is a left fold over the samples\<close>

lemma mega_press_drop:
  "0 \<le> i \<Longrightarrow> pw = int (length rho) \<Longrightarrow>
   mega_press L sys ud rho pw i s = foldl (mega_press_step L sys ud) s (drop (nat i) rho)"
proof (induction L sys ud rho pw i s rule: mega_press.induct)
  case (1 L sys ud rho pw i s)
  show ?case
  proof (cases "i < pw")
    case True
    with "1.prems" have lt: "nat i < length rho" by simp
    have nat_suc: "nat (i + 1) = Suc (nat i)" using "1.prems" by simp
    have "drop (nat i) rho = rho ! nat i # drop (nat (i + 1)) rho"
      using lt by (simp add: nat_suc Cons_nth_drop_Suc)
    moreover have "mega_press L sys ud rho pw (i + 1) (mega_press_step L sys ud s (rho ! nat i))
        = foldl (mega_press_step L sys ud) (mega_press_step L sys ud s (rho ! nat i))
            (drop (nat (i + 1)) rho)"
      using "1.IH" [OF True] "1.prems" by simp
    ultimately show ?thesis
      using True by (subst mega_press.simps) simp
  next
    case False
    with "1.prems" have "drop (nat i) rho = []" by simp
    then show ?thesis using False by (subst mega_press.simps) simp
  qed
qed

lemma mega_press_foldl:
  "pw = int (length rho) \<Longrightarrow>
   mega_press L sys ud rho pw 0 s = foldl (mega_press_step L sys ud) s rho"
  using mega_press_drop [of 0 pw rho L sys ud s] by simp

lemma foldl_step_driver:
  "foldl (mega_press_step L sys (prop_g L H dwell)) s w =
   shaped_pulse_driver L sys H dwell 0 flip_angle w s"
proof -
  have "mega_press_step L sys (prop_g L H dwell) =
      (\<lambda>r s. evolve L (Ixypuls L sys r 0 (flip_angle (float_val s))) (prop_g L H dwell))"
    by (intro ext) (simp add: mega_press_step_def)
  then show ?thesis by (simp add: shaped_pulse_driver_def)
qed

section \<open>Acquisition and the sequence of transitions\<close>

lemma FID_samples_map:
  "FID_samples L rho D U M =
     map (\<lambda>k. expectationValue L (((\<lambda>r. evolve L r U) ^^ k) rho) D) [0..<M]"
proof (induction M arbitrary: rho)
  case 0
  show ?case by simp
next
  case (Suc M)
  have "[0..<Suc M] = 0 # map Suc [0..<M]"
    by (simp add: upt_conv_Cons map_Suc_upt del: upt_Suc)
  moreover have "((\<lambda>r. evolve L r U) ^^ k) (evolve L rho U) =
      evolve L (((\<lambda>r. evolve L r U) ^^ k) rho) U" for k
    using funpow_swap1 [of "\<lambda>r. evolve L r U" k rho] by simp
  ultimately show ?case
    by (simp add: Suc.IH comp_def del: upt_Suc)
qed

lemma length_FID_samples: "length (FID_samples L rho D U M) = M"
  by (induction M arbitrary: rho) simp_all

lemma sequence_transitions:
  "sequence L sys (int (length rho)) rho =
     foldl (apply_transition L sys (Ho L sys)) (sigma_eq L sys)
       (mega_press_transitions (int (length rho)) rho)"
  by (simp add: sequence_def mega_press_transitions_def mega_press_foldl foldl_step_driver Let_def)

lemma main_Inr:
  assumes "main L inp = Inr out"
  shows "\<exists>pw rho. load_waveform (wav_file inp) = Inr (pw, rho) \<and>
           out = \<lparr>outfile = argv inp ! 1, varname = ''test_fid'',
                  data = FID L (sequence L (offsetShifts L (sys_file inp) (of_int (atoi L (argv inp ! 2)))) pw rho)
                           (Fm L (offsetShifts L (sys_file inp) (of_int (atoi L (argv inp ! 2)))))
                           (Ho L (offsetShifts L (sys_file inp) (of_int (atoi L (argv inp ! 2)))))
                           0.0002 2048\<rparr>"
  using assms
  by (auto simp: main_def Let_def split: if_splits sum.splits prod.splits)

section \<open>Matrix algebra\<close>

lemma mat_trace_cyclic:
  "mat_trace n (mat_mul n A B) = mat_trace n (mat_mul n B A)"
proof -
  have "mat_trace n (mat_mul n A B) = (\<Sum>i<n. \<Sum>k<n. A i k * B k i)"
    by (simp add: mat_trace_def mat_mul_def)
  also have "\<dots> = (\<Sum>k<n. \<Sum>i<n. A i k * B k i)"
    by (rule sum.swap)
  also have "\<dots> = (\<Sum>k<n. \<Sum>i<n. B k i * A i k)"
    by (simp add: mult.commute)
  also have "\<dots> = mat_trace n (mat_mul n B A)"
    by (simp add: mat_trace_def mat_mul_def)
  finally show ?thesis .
qed

lemma mat_mul_assoc:
  "mat_mul n (mat_mul n A B) C = mat_mul n A (mat_mul n B C)"
proof (intro ext)
  fix i j
  have "mat_mul n (mat_mul n A B) C i j = (\<Sum>k<n. \<Sum>l<n. A i l * B l k * C k j)"
    by (simp add: mat_mul_def sum_distrib_right)
  also have "\<dots> = (\<Sum>l<n. \<Sum>k<n. A i l * B l k * C k j)"
    by (rule sum.swap)
  also have "\<dots> = mat_mul n A (mat_mul n B C) i j"
    by (simp add: mat_mul_def sum_distrib_left mult.assoc)
  finally show "mat_mul n (mat_mul n A B) C i j = mat_mul n A (mat_mul n B C) i j" .
qed

lemma mat_trace_cong:
  "mat_eq n A B \<Longrightarrow> mat_trace n A = mat_trace n B"
  by (simp add: mat_eq_def mat_trace_def)

lemma mat_mul_cong_right:
  "mat_eq n B C \<Longrightarrow> mat_eq n (mat_mul n A B) (mat_mul n A C)"
  by (simp add: mat_eq_def mat_mul_def)

lemma mat_mul_one_right: "mat_eq n (mat_mul n A mat_one) A"
proof -
  have "(\<Sum>k<n. A i k * mat_one k j) = A i j" if "j < n" for i j
  proof -
    have "(\<Sum>k<n. A i k * mat_one k j) = (\<Sum>k<n. if k = j then A i j else 0)"
      by (rule sum.cong) (auto simp: mat_one_def)
    also have "\<dots> = A i j" using that by simp
    finally show ?thesis .
  qed
  then show ?thesis by (simp add: mat_eq_def mat_mul_def)
qed

lemma apply_op_trace:
  assumes "unitary n U"
  shows "mat_trace n (apply_op n U rho) = mat_trace n rho"
proof -
  have "mat_trace n (apply_op n U rho) = mat_trace n (mat_mul n (dagger U) (mat_mul n U rho))"
    unfolding apply_op_def by (rule mat_trace_cyclic)
  also have "\<dots> = mat_trace n (mat_mul n (mat_mul n (dagger U) U) rho)"
    by (simp add: mat_mul_assoc)
  also have "\<dots> = mat_trace n (mat_mul n rho (mat_mul n (dagger U) U))"
    by (rule mat_trace_cyclic)
  also have "\<dots> = mat_trace n (mat_mul n rho mat_one)"
    using assms by (intro mat_trace_cong mat_mul_cong_right) (simp add: unitary_def)
  also have "\<dots> = mat_trace n rho"
    by (intro mat_trace_cong mat_mul_one_right)
  finally show ?thesis .
qed

lemma apply_op_hermitian:
  assumes "hermitian n rho"
  shows "hermitian n (apply_op n U rho)"
proof -
  have h: "cnj (rho k l) = rho l k" if "k < n" "l < n" for k l
    using assms that by (simp add: hermitian_def mat_eq_def dagger_def)
  have "cnj (apply_op n U rho j i) = apply_op n U rho i j" for i j
  proof -
    have "cnj (apply_op n U rho j i) = (\<Sum>k<n. \<Sum>l<n. cnj (U j l) * cnj (rho l k) * U i k)"
      by (simp add: apply_op_def mat_mul_def dagger_def sum_distrib_right)
    also have "\<dots> = (\<Sum>k<n. \<Sum>l<n. cnj (U j l) * rho k l * U i k)"
      by (intro sum.cong refl) (simp add: h)
    also have "\<dots> = (\<Sum>k<n. \<Sum>l<n. U i k * rho k l * cnj (U j l))"
      by (simp add: mult_ac)
    also have "\<dots> = (\<Sum>l<n. \<Sum>k<n. U i k * rho k l * cnj (U j l))"
      by (rule sum.swap)
    also have "\<dots> = apply_op n U rho i j"
      by (simp add: apply_op_def mat_mul_def dagger_def sum_distrib_right)
    finally show ?thesis .
  qed
  then show ?thesis by (simp add: hermitian_def mat_eq_def dagger_def)
qed

lemma mat_pow_zero: "mat_pow n (\<lambda>i j. 0) (Suc k) = (\<lambda>i j. 0)"
  by (simp add: mat_mul_def)

lemma mat_exp_zero: "mat_exp n (\<lambda>i j. 0) = mat_one"
proof (intro ext)
  fix i j
  have "(\<lambda>k. mat_pow n (\<lambda>i j. 0) k i j / fact k) = (\<lambda>k. if k = 0 then mat_one i j else 0)"
  proof
    fix k
    show "mat_pow n (\<lambda>i j. 0) k i j / fact k = (if k = 0 then mat_one i j else 0)"
      by (cases k) (simp_all add: mat_mul_def)
  qed
  then have "mat_exp n (\<lambda>i j. 0) i j = (\<Sum>k. if k = 0 then mat_one i j else 0)"
    by (simp add: mat_exp_def)
  also have "\<dots> = (\<Sum>k\<in>{0}. if k = 0 then mat_one i j else 0)"
    using suminf_finite [of "{0}" "\<lambda>k. if k = 0 then mat_one i j else 0"] by simp
  finally show "mat_exp n (\<lambda>i j. 0) i j = mat_one i j" by simp
qed

lemma prop_zero: "freePrecessionPropagator n H 0 = Inr mat_one"
  by (simp add: freePrecessionPropagator_def mat_exp_zero)

section \<open>A lower bound on \<open>\<pi>\<close>\<close>

lemma arctan_fifth_lower:
  "1/5 - 1/375 + 1/15625 - 1/546875 + 1/17578125 - 1/537109375 \<le> arctan (1/5 :: real)"
proof -
  let ?a = "\<lambda>n. 1 / real (n * 2 + 1) * (1/5 :: real) ^ (n * 2 + 1)"
  have x: "\<bar>1/5 :: real\<bar> \<le> 1" by simp
  have "0 < ?a 0" by simp
  with summable_Leibniz(2) [OF zeroseq_arctan_series [OF x] monoseq_arctan_series [OF x]]
  have "(\<Sum>i<2 * 3. (- 1) ^ i * ?a i) \<le> (\<Sum>i. (- 1) ^ i * ?a i)"
    by (metis (no_types, lifting) atLeastAtMost_iff)
  also have "(\<Sum>i. (- 1) ^ i * ?a i) = arctan (1/5)"
    using arctan_series [OF x] by simp
  finally show ?thesis
    by (simp add: numeral_eq_Suc)
qed

lemma arctan_239_upper: "arctan (1/239 :: real) \<le> 1/239"
proof -
  let ?a = "\<lambda>n. 1 / real (n * 2 + 1) * (1/239 :: real) ^ (n * 2 + 1)"
  have x: "\<bar>1/239 :: real\<bar> \<le> 1" by simp
  have "0 < ?a 0" by simp
  with summable_Leibniz(2) [OF zeroseq_arctan_series [OF x] monoseq_arctan_series [OF x]]
  have "(\<Sum>i. (- 1) ^ i * ?a i) \<le> (\<Sum>i<2 * 0 + 1. (- 1) ^ i * ?a i)"
    by (metis (no_types, lifting) atLeastAtMost_iff)
  moreover have "(\<Sum>i. (- 1) ^ i * ?a i) = arctan (1/239)"
    using arctan_series [OF x] by simp
  ultimately show ?thesis by simp
qed

lemma pi_lower: "3.1415925 < pi"
proof -
  have "pi = 16 * arctan (1/5) - 4 * arctan (1/239)"
    using machin by simp
  with arctan_fifth_lower arctan_239_upper show ?thesis by simp
qed

section \<open>Evaluating the IEEE operations\<close>

lemma pow2_powr: "pow2 k = 2 powr real_of_int k"
proof (cases "0 \<le> k")
  case True
  then show ?thesis
    by (simp add: pow2_def powr_realpow [symmetric])
next
  case False
  then have n: "real (nat (- k)) = - real_of_int k" by simp
  have "(2::real) ^ nat (- k) = 2 powr real (nat (- k))"
    by (simp add: powr_realpow)
  also have "\<dots> = 2 powr (- real_of_int k)" by (simp only: n)
  finally have "1 / (2::real) ^ nat (- k) = 2 powr real_of_int k"
    by (simp add: powr_minus_divide)
  with False show ?thesis by (simp add: pow2_def)
qed

lemma floor_log2:
  assumes "pow2 k \<le> \<bar>x\<bar>" "\<bar>x\<bar> < pow2 (k + 1)"
  shows "\<lfloor>log 2 \<bar>x\<bar>\<rfloor> = k"
proof -
  have pos: "0 < \<bar>x\<bar>" using assms(1) by (smt (verit) pow2_powr powr_gt_zero)
  have "2 powr real_of_int k \<le> \<bar>x\<bar>" "\<bar>x\<bar> < 2 powr (real_of_int k + 1)"
    using assms by (simp_all add: pow2_powr)
  then show ?thesis
    using pos by (simp add: floor_log_eq_powr_iff)
qed

text \<open>With the binary exponent of \<open>x\<close> at hand, rounding is a computation.\<close>

lemma fp_round_eval:
  assumes "pow2 k \<le> \<bar>x\<bar>" "\<bar>x\<bar> < pow2 (k + 1)"
  shows "fp_round p emin emax x = fp_round_at p emin emax k x"
proof -
  have "x \<noteq> 0" using assms(1) by (smt (verit) pow2_powr powr_gt_zero)
  then show ?thesis by (simp add: fp_round_def floor_log2 [OF assms])
qed

lemmas fp_eval = fp_round_at_def pow2_def round_even_def

lemma float_val_one: "float_val 0x3F800000 = Finite 1"
  by (simp add: float_val_def pow2_def bit_iff_odd drop_bit_eq_div take_bit_eq_mod)

lemma float_val_two: "float_val 0x40000000 = Finite 2"
  by (simp add: float_val_def pow2_def bit_iff_odd drop_bit_eq_div take_bit_eq_mod)

lemma double_3_14159: "to_double 3.14159 = Finite (7074231776675438 / 2 ^ 51)"
  using fp_round_eval [of 1 "3.14159" 53 "- 1022" 1023]
  by (simp add: to_double_def fp_eval)

lemma fp_then_simps:
  "fp_then (Finite a) f = f a" "fp_then PlusInf f = PlusInf"
  "fp_then MinusInf f = MinusInf" "fp_then NaN f = NaN"
  by (simp_all add: fp_then_def)

lemma flip_angle_Finite:
  "flip_angle (Finite a) =
     fp_then (fp_then (fp_then (to_float (a * angle_factor)) (\<lambda>b. to_float (b * 180)))
                (\<lambda>c. to_double (c / (7074231776675438 / 2 ^ 51))))
       to_float"
  by (simp only: flip_angle_def double_3_14159 fp_then_simps)

lemma flip_angle_one: "flip_angle (Finite 1) = Finite (15019758 / 2 ^ 18)"
proof -
  have a: "to_float (1 * angle_factor) = Finite 1"
    using fp_round_eval [of 0 1 24 "- 126" 127]
    by (simp add: angle_factor_def to_float_def fp_eval)
  have b: "to_float (1 * 180) = Finite 180"
    using fp_round_eval [of 7 180 24 "- 126" 127]
    by (simp add: to_float_def fp_eval)
  have c: "to_double (180 / (7074231776675438 / 2 ^ 51)) = Finite (1007958864140413 / 2 ^ 44)"
    using fp_round_eval [of 5 "180 / (7074231776675438 / 2 ^ 51)" 53 "- 1022" 1023]
    by (simp add: to_double_def fp_eval)
  have e: "to_float (1007958864140413 / 2 ^ 44) = Finite (15019758 / 2 ^ 18)"
    using fp_round_eval [of 5 "1007958864140413 / 2 ^ 44" 24 "- 126" 127]
    by (simp add: to_float_def fp_eval)
  show ?thesis
    by (simp only: flip_angle_Finite a fp_then_simps b c e)
qed

lemma flip_angle_two: "flip_angle (Finite 2) = Finite (30039516 / 2 ^ 18)"
proof -
  have a: "to_float (2 * angle_factor) = Finite 2"
    using fp_round_eval [of 1 2 24 "- 126" 127]
    by (simp add: angle_factor_def to_float_def fp_eval)
  have b: "to_float (2 * 180) = Finite 360"
    using fp_round_eval [of 8 360 24 "- 126" 127]
    by (simp add: to_float_def fp_eval)
  have c: "to_double (360 / (7074231776675438 / 2 ^ 51)) = Finite (1007958864140413 / 2 ^ 43)"
    using fp_round_eval [of 6 "360 / (7074231776675438 / 2 ^ 51)" 53 "- 1022" 1023]
    by (simp add: to_double_def fp_eval)
  have e: "to_float (1007958864140413 / 2 ^ 43) = Finite (30039516 / 2 ^ 18)"
    using fp_round_eval [of 6 "1007958864140413 / 2 ^ 43" 24 "- 126" 127]
    by (simp add: to_float_def fp_eval)
  show ?thesis
    by (simp only: flip_angle_Finite a fp_then_simps b c e)
qed

text \<open>
  The largest \<^verbatim>\<open>float\<close> overflows in the product with 180, and the infinities and
  NaNs among the samples pass through.
\<close>

lemma flip_angle_FLT_MAX: "flip_angle (float_val 0x7F7FFFFF) = PlusInf"
proof -
  have v: "float_val 0x7F7FFFFF = Finite (16777215 * 2 ^ 104)"
    by (simp add: float_val_def pow2_def bit_iff_odd drop_bit_eq_div take_bit_eq_mod)
  have a: "to_float (16777215 * 2 ^ 104 * angle_factor) = Finite (16777215 * 2 ^ 104)"
    using fp_round_eval [of 127 "16777215 * 2 ^ 104" 24 "- 126" 127]
    by (simp add: angle_factor_def to_float_def fp_eval)
  have b: "to_float (16777215 * 2 ^ 104 * 180) = PlusInf"
    using fp_round_eval [of 135 "16777215 * 2 ^ 104 * 180" 24 "- 126" 127]
    by (simp add: to_float_def fp_eval)
  show ?thesis
    by (simp only: v flip_angle_Finite a fp_then_simps b)
qed

text \<open>The smallest subnormal sample: the quotient \<open>57.29\<dots> \<cdot> 2^-149\<close> rounds to 57 steps.\<close>

lemma flip_angle_min_subnormal: "flip_angle (float_val 1) = Finite (57 / 2 ^ 149)"
proof -
  have v: "float_val 1 = Finite (1 / 2 ^ 149)"
    by (simp add: float_val_def pow2_def bit_iff_odd drop_bit_eq_div take_bit_eq_mod)
  have a: "to_float (1 / 2 ^ 149 * angle_factor) = Finite (1 / 2 ^ 149)"
    using fp_round_eval [of "- 149" "1 / 2 ^ 149" 24 "- 126" 127]
    by (simp add: angle_factor_def to_float_def fp_eval)
  have b: "to_float (1 / 2 ^ 149 * 180) = Finite (180 / 2 ^ 149)"
    using fp_round_eval [of "- 142" "180 / 2 ^ 149" 24 "- 126" 127]
    by (simp add: to_float_def fp_eval)
  have c: "to_double (180 / 2 ^ 149 / (7074231776675438 / 2 ^ 51)) =
      Finite (1007958864140413 / 2 ^ 193)"
    using fp_round_eval [of "- 144" "180 / 2 ^ 149 / (7074231776675438 / 2 ^ 51)" 53 "- 1022" 1023]
    by (simp add: to_double_def fp_eval)
  have e: "to_float (1007958864140413 / 2 ^ 193) = Finite (57 / 2 ^ 149)"
    using fp_round_eval [of "- 144" "1007958864140413 / 2 ^ 193" 24 "- 126" 127]
    by (simp add: to_float_def fp_eval)
  show ?thesis
    by (simp only: v flip_angle_Finite a fp_then_simps b c e)
qed

lemma flip_angle_nonfinite:
  "flip_angle PlusInf = PlusInf" "flip_angle MinusInf = MinusInf" "flip_angle NaN = NaN"
  by (simp_all only: flip_angle_def double_3_14159 fp_then_simps)

section \<open>Running the model on concrete inputs\<close>

lemma float_one_bits: "float_of_bytes 0 0 128 63 = 0x3F800000"
  by (simp add: float_of_bytes_def)

lemma float_two_bits: "float_of_bytes 0 0 0 64 = 0x40000000"
  by (simp add: float_of_bytes_def)

lemma fread_two:
  "fread 2 (a # b # c # d # e # f # g # h # bs) = [float_of_bytes a b c d, float_of_bytes e f g h]"
proof -
  have "fread (Suc (Suc 0)) (a # b # c # d # e # f # g # h # bs) =
      [float_of_bytes a b c d, float_of_bytes e f g h]"
    by simp
  then show ?thesis by (simp only: numeral_2_eq_2)
qed

lemma test_load:
  "load_waveform (wav_file test_input) = Inr (2, [0x3F800000, 0x40000000])"
proof -
  have "ftell_int [0, 0, 128, 63, 0, 0, 0, 64] = 8"
    by (simp add: ftell_int_eq)
  then show ?thesis
    by (simp add: test_input_def load_waveform_def fread_two float_one_bits float_two_bits)
qed

lemma test_sequence:
  "sequence test_gamma () 2 [0x3F800000, 0x40000000] = 6511910737 / 8192000"
  using mega_press_foldl [of 2 "[0x3F800000, 0x40000000]" test_gamma]
  by (simp add: sequence_def Let_def test_gamma_def mega_press_step_def float_val_one
      float_val_two flip_angle_one flip_angle_two timing_defs)

lemma test_main: "main test_gamma test_input = Inr test_output"
proof -
  have "argv test_input = [''gaba_gauss1'', ''out.mat'', ''0'']" "sys_file test_input = ()"
    by (simp_all add: test_input_def)
  moreover have "Ho test_gamma () = 2" "Fm test_gamma () = 3" "offsetShifts test_gamma () x = ()" for x
    by (simp_all add: test_gamma_def)
  ultimately show ?thesis
    by (simp add: main_def test_load test_sequence Let_def test_output_def)
qed

lemma fread_waveform_of_file:
  assumes "4 * n \<le> length bs"
  shows "fread n bs =
    map (\<lambda>k. float_of_bytes (bs ! (4 * k)) (bs ! (4 * k + 1)) (bs ! (4 * k + 2)) (bs ! (4 * k + 3)))
      [0..<n]"
  by (rule nth_equalityI) (simp_all add: length_fread [OF assms] fread_nth [OF _ assms])

lemma big_wav_length: "length big_wav = 4294967304"
  by (simp add: big_wav_def)

lemma big_wav_load: "load_waveform (Some big_wav) = Inr (2, [0x3F800000, 0x40000000])"
proof -
  have "ftell_int big_wav = 8"
    by (simp add: ftell_int_eq big_wav_length)
  moreover have "fread 2 big_wav = [0x3F800000, 0x40000000]"
    by (simp add: big_wav_def fread_two float_one_bits float_two_bits)
  ultimately show ?thesis
    by (simp add: load_waveform_def)
qed

section \<open>The claims\<close>

text \<open>
  C1, as the specification states it: for a waveform of four samples each interval is
  non-negative and the four intervals plus twice \<open>T12\<close> plus twice the pulse duration
  make up the echo time.  This is false: the sum is 0.074, the echo time 0.068.
\<close>

theorem C1_twice_T12_counterexample:
  "\<not> (0 \<le> t_2g1 4 \<and> 0 \<le> t_g13 4 \<and> 0 \<le> t_3g2 4 \<and> 0 \<le> t_g2r 4 \<and>
      t_2g1 4 + t_g13 4 + t_3g2 4 + t_g2r 4 + 2 * t_12 + 2 * 4 * t_dwell = t_te)"
  by (simp add: intervals_values_4) (simp add: t_12_def t_dwell_def t_te_def)

text \<open>
  C1, amended: for a waveform of four samples each of the intervals \<open>T_2g1\<close>,
  \<open>T_g13\<close>, \<open>T_3g2\<close>, \<open>T_g2r\<close> is non-negative, and their sum plus \<open>T12\<close>
  (once: the delay between the excitation pulse and the first refocusing pulse) plus
  twice the pulse duration \<open>N \<cdot> dwell\<close> equals the echo time, in exact arithmetic.
\<close>

theorem C1_refocusing_closure:
  "0 \<le> t_2g1 4 \<and> 0 \<le> t_g13 4 \<and> 0 \<le> t_3g2 4 \<and> 0 \<le> t_g2r 4 \<and>
   t_2g1 4 + t_g13 4 + t_3g2 4 + t_g2r 4 + t_12 + 2 * 4 * t_dwell = t_te"
  using intervals_closure [of 4] by (simp add: intervals_values_4)

text \<open>
  The loop of lines 119--126 on a waveform of \<open>N\<close> samples is the Shaped-Pulse Driver at
  phase 0 with the flip angle of line 122: the samples in order, for each the rotation
  and then the free evolution of one dwell.
\<close>

lemma mega_press_shaped_pulse_driver:
  "mega_press L sys (prop_g L H t_dwell) rho (int (length rho)) 0 sigma =
     shaped_pulse_driver L sys H t_dwell 0 flip_angle rho sigma"
  using mega_press_foldl [of "int (length rho)" rho L sys "prop_g L H t_dwell" sigma]
    foldl_step_driver [of L sys H t_dwell sigma rho]
  by simp

text \<open>
  C2: the flip angle of a sample is to be the sample times the calibration factor times
  \<open>180/\<pi>\<close>.  On the one-sample waveform \<open>1.0\<close> (the bytes 00 00 80 3F) line 122
  yields the \<^verbatim>\<open>float\<close> \<open>15019758 / 2^18 = 57.29582977\<dots>\<close>, and the loop hands this
  angle to \<^verbatim>\<open>Ixypuls\<close>.  It lies more than \<open>2^-15\<close>, eight steps of the
  \<^verbatim>\<open>float\<close>s of that size, above \<open>1 \<cdot> 1 \<cdot> 180/\<pi> = 57.29577951\<dots>\<close>: the source
  divides by the decimal 3.14159 where the claim has \<open>\<pi>\<close>.
\<close>

theorem C2_truncated_pi:
  "float_val (float_of_bytes 0 0 128 63) = Finite 1 \<and>
   flip_angle (Finite 1) = Finite (15019758 / 2 ^ 18) \<and>
   1 * angle_factor * (180 / pi) + 1 / 2 ^ 15 < 15019758 / 2 ^ 18 \<and>
   mega_press L sys udelay_dwell [float_of_bytes 0 0 128 63] 1 0 sigma =
     evolve L (Ixypuls L sys sigma 0 (Finite (15019758 / 2 ^ 18))) udelay_dwell"
proof -
  have "180 / pi < 180 / 3.1415925"
    using pi_lower by (intro divide_strict_left_mono) simp_all
  then have gap: "1 * angle_factor * (180 / pi) + 1 / 2 ^ 15 < 15019758 / 2 ^ 18"
    by (simp add: angle_factor_def)
  have "mega_press L sys udelay_dwell [0x3F800000] 1 0 sigma =
      evolve L (Ixypuls L sys sigma 0 (Finite (15019758 / 2 ^ 18))) udelay_dwell"
    using mega_press_foldl [of 1 "[0x3F800000]" L sys udelay_dwell sigma]
    by (simp add: mega_press_step_def float_val_one flip_angle_one)
  with gap show ?thesis
    by (simp only: float_one_bits float_val_one flip_angle_one simp_thms)
qed

text \<open>
  C3: whenever the program reaches the acquisition, the operator handed to \<^verbatim>\<open>FID\<close>
  is the equilibrium operator taken through these transitions in this order: a 90 degree
  pulse at phase 90, free evolution for \<open>T12\<close>, a 180 degree pulse at phase 90, free
  evolution for \<open>T_2g1\<close>, the shaped-pulse train, free evolution for \<open>T_g13\<close>, a 180
  degree pulse at phase 90, free evolution for \<open>T_3g2\<close>, the shaped-pulse train on the
  same waveform with the same calibration, and free evolution for \<open>T_g2r\<close>.
\<close>

theorem C3_sequence_order:
  assumes "main L inp = Inr out"
  shows "let sys = offsetShifts L (sys_file inp) (of_int (atoi L (argv inp ! 2)));
             H = Ho L sys
         in \<exists>pw rho. load_waveform (wav_file inp) = Inr (pw, rho) \<and>
              data out =
                FID L (foldl (apply_transition L sys H) (sigma_eq L sys)
                         (mega_press_transitions pw rho))
                  (Fm L sys) H 0.0002 2048"
proof -
  from main_Inr [OF assms] obtain pw rho where
    load: "load_waveform (wav_file inp) = Inr (pw, rho)" and
    out: "out = \<lparr>outfile = argv inp ! 1, varname = ''test_fid'',
                  data = FID L (sequence L (offsetShifts L (sys_file inp) (of_int (atoi L (argv inp ! 2)))) pw rho)
                           (Fm L (offsetShifts L (sys_file inp) (of_int (atoi L (argv inp ! 2)))))
                           (Ho L (offsetShifts L (sys_file inp) (of_int (atoi L (argv inp ! 2)))))
                           0.0002 2048\<rparr>"
    by blast
  have pw: "pw = int (length rho)" using load by (rule load_waveform_length)
  have "data out =
      FID L (foldl (apply_transition L (offsetShifts L (sys_file inp) (of_int (atoi L (argv inp ! 2))))
                      (Ho L (offsetShifts L (sys_file inp) (of_int (atoi L (argv inp ! 2))))))
               (sigma_eq L (offsetShifts L (sys_file inp) (of_int (atoi L (argv inp ! 2)))))
               (mega_press_transitions pw rho))
        (Fm L (offsetShifts L (sys_file inp) (of_int (atoi L (argv inp ! 2)))))
        (Ho L (offsetShifts L (sys_file inp) (of_int (atoi L (argv inp ! 2))))) 0.0002 2048"
    unfolding out pw sequence_transitions by simp
  with load show ?thesis unfolding Let_def by blast
qed

text \<open>
  The hypothesis of C3 holds for the test input, and the conclusion there.
\<close>

theorem C3_sequence_order_witness:
  "main test_gamma test_input = Inr test_output \<and>
   (\<exists>pw rho. load_waveform (wav_file test_input) = Inr (pw, rho) \<and>
      data test_output =
        FID test_gamma (foldl (apply_transition test_gamma () (Ho test_gamma ())) (sigma_eq test_gamma ())
                 (mega_press_transitions pw rho))
          (Fm test_gamma ()) (Ho test_gamma ()) 0.0002 2048)"
proof -
  have m: "main test_gamma test_input = Inr test_output" by (rule test_main)
  have u: "offsetShifts test_gamma (sys_file test_input) x = ()" for x by simp
  from C3_sequence_order [OF m] m show ?thesis unfolding Let_def u by blast
qed

text \<open>
  C4: for every sample count \<open>M\<close> the Signal Synthesizer returns exactly \<open>M\<close>
  samples; sample \<open>k\<close> is the expectation value of the detection operator in the
  terminal density operator evolved by \<open>k\<close> acquisition dwells, so each sample is
  recorded before the evolution that follows it.  With \<open>M = 0\<close> the output is empty and
  with \<open>M = 1\<close> it is the single expectation value in the terminal density operator.
\<close>

theorem C4_sample_then_evolve:
  "FID L sigma D H td M =
     map (\<lambda>k. expectationValue L (((\<lambda>r. evolve L r (prop_g L H td)) ^^ k) sigma) D) [0..<M] \<and>
   length (FID L sigma D H td M) = M \<and>
   FID L sigma D H td 0 = [] \<and>
   FID L sigma D H td 1 = [expectationValue L sigma D]"
  by (simp add: FID_def FID_samples_map)

text \<open>
  C5: for every unitary \<open>U\<close> and every density operator \<open>rho\<close>, \<open>apply(U, rho)\<close>
  is \<open>U \<cdot> rho \<cdot> U\<^sup>\<dagger>\<close>, has the trace of \<open>rho\<close>, and is Hermitian when \<open>rho\<close>
  is.
\<close>

theorem C5_apply_preserves:
  assumes "unitary n U"
  shows "apply_op n U rho = mat_mul n (mat_mul n U rho) (dagger U) \<and>
         mat_trace n (apply_op n U rho) = mat_trace n rho \<and>
         (hermitian n rho \<longrightarrow> hermitian n (apply_op n U rho))"
  using apply_op_trace [OF assms] apply_op_hermitian by (simp add: apply_op_def)

text \<open>
  C5 at a concrete unitary (\<open>i\<close> times the exchange matrix) and a concrete Hermitian
  density operator of trace 1.
\<close>

theorem C5_apply_preserves_witness:
  "unitary 2 (mat_of_rows [[0, \<i>], [\<i>, 0]]) \<and>
   hermitian 2 (mat_of_rows [[1, 0], [0, 0]]) \<and>
   mat_trace 2 (apply_op 2 (mat_of_rows [[0, \<i>], [\<i>, 0]]) (mat_of_rows [[1, 0], [0, 0]])) = 1 \<and>
   hermitian 2 (apply_op 2 (mat_of_rows [[0, \<i>], [\<i>, 0]]) (mat_of_rows [[1, 0], [0, 0]]))"
proof -
  have u: "unitary 2 (mat_of_rows [[0, \<i>], [\<i>, 0]])"
    by (simp add: unitary_def mat_eq_def mat_mul_def dagger_def mat_one_def mat_of_rows_def
        numeral_2_eq_2 lessThan_Suc)
  have h: "hermitian 2 (mat_of_rows [[1, 0], [0, 0]])"
    by (simp add: hermitian_def mat_eq_def dagger_def mat_of_rows_def numeral_2_eq_2 lessThan_Suc)
  have t: "mat_trace 2 (mat_of_rows [[1, 0], [0, 0]]) = 1"
    by (simp add: mat_trace_def mat_of_rows_def numeral_2_eq_2 lessThan_Suc)
  from C5_apply_preserves [OF u, of "mat_of_rows [[1, 0], [0, 0]]", THEN conjunct2] u h t
  show ?thesis by simp
qed

text \<open>
  C6: \<open>freePrecessionPropagator(H, 0)\<close> is the identity operator, and for every
  duration below zero \<open>freePrecessionPropagator(H, duration)\<close> fails with
  \<open>InvalidArgument\<close>.
\<close>

theorem C6_propagator_zero_and_negative:
  "freePrecessionPropagator n H 0 = Inr mat_one \<and>
   (\<forall>duration<0. freePrecessionPropagator n H duration = Inl InvalidArgument)"
  by (simp add: prop_zero) (simp add: freePrecessionPropagator_def)

text \<open>
  C6 at the duration \<open>-1\<close>, for a diagonal Hamiltonian of two levels.
\<close>

theorem C6_propagator_zero_and_negative_witness:
  "(- 1 :: real) < 0 \<and>
   freePrecessionPropagator 2 (mat_of_rows [[1, 0], [0, - 1]]) (- 1) = Inl InvalidArgument \<and>
   freePrecessionPropagator 2 (mat_of_rows [[1, 0], [0, - 1]]) 0 = Inr mat_one"
  using C6_propagator_zero_and_negative [of 2 "mat_of_rows [[1, 0], [0, - 1]]"] by simp

text \<open>
  C7: for every density operator, the loop of the shaped pulse on an empty waveform
  (\<open>pw = 0\<close>) returns the operator unchanged, and the pulse duration \<open>pw \<cdot> t_dwell\<close>
  is zero.
\<close>

theorem C7_empty_waveform:
  "mega_press L sys udelay_dwell [] 0 0 sigma = sigma \<and> t_pulse 0 = 0"
  by (simp add: mega_press.simps t_pulse_def)

text \<open>
  Below \<open>2^31\<close> bytes the loader yields the waveform of the specification: as many
  samples as the file size divided by four, sample \<open>k\<close> made of the bytes
  \<open>4k \<dots> 4k+3\<close>.
\<close>

lemma load_waveform_file_order:
  assumes "length bytes < 2 ^ 31"
  shows "load_waveform (Some bytes) = Inr (int (length bytes div 4), waveform_of_file bytes)"
proof -
  have "4 * (length bytes div 4) \<le> length bytes" by simp
  then have "fread (length bytes div 4) bytes = waveform_of_file bytes"
    unfolding waveform_of_file_def by (rule fread_waveform_of_file)
  then show ?thesis
    using load_waveform_small [OF assms] by simp
qed

text \<open>
  C9: a waveform file of byte size \<open>S\<close> is to yield \<open>S / 4\<close> samples.  The size passes
  through the \<^verbatim>\<open>int rf_size\<close> of line 36: the file of \<open>2^32 + 8\<close> bytes that starts
  with the samples \<open>1.0\<close> and \<open>2.0\<close> holds 1073741826 samples, and the program loads a
  waveform of two.
\<close>

theorem C9_big_file_truncated:
  "length big_wav = 2 ^ 32 + 8 \<and>
   length big_wav div 4 = 1073741826 \<and>
   load_waveform (Some big_wav) = Inr (2, [0x3F800000, 0x40000000])"
  by (simp add: big_wav_length big_wav_load)

text \<open>
  C10: whenever the program emits a signal, the signal has exactly 2048 samples, and it
  is acquired by \<^verbatim>\<open>FID\<close> with the literal dwell 0.0002 and the literal count 2048,
  whatever the spin system, the waveform and the offset are.
\<close>

theorem C10_fixed_acquisition:
  assumes "main L inp = Inr out"
  shows "length (data out) = 2048 \<and>
         (let sys = offsetShifts L (sys_file inp) (of_int (atoi L (argv inp ! 2)))
          in \<exists>pw rho. load_waveform (wav_file inp) = Inr (pw, rho) \<and>
               data out = FID L (sequence L sys pw rho) (Fm L sys) (Ho L sys) 0.0002 2048)"
proof -
  from main_Inr [OF assms] obtain pw rho where
    load: "load_waveform (wav_file inp) = Inr (pw, rho)" and
    out: "out = \<lparr>outfile = argv inp ! 1, varname = ''test_fid'',
                  data = FID L (sequence L (offsetShifts L (sys_file inp) (of_int (atoi L (argv inp ! 2)))) pw rho)
                           (Fm L (offsetShifts L (sys_file inp) (of_int (atoi L (argv inp ! 2)))))
                           (Ho L (offsetShifts L (sys_file inp) (of_int (atoi L (argv inp ! 2)))))
                           0.0002 2048\<rparr>"
    by blast
  have "length (data out) = 2048"
    unfolding out by (simp add: FID_def length_FID_samples)
  moreover have "data out =
      FID L (sequence L (offsetShifts L (sys_file inp) (of_int (atoi L (argv inp ! 2)))) pw rho)
        (Fm L (offsetShifts L (sys_file inp) (of_int (atoi L (argv inp ! 2)))))
        (Ho L (offsetShifts L (sys_file inp) (of_int (atoi L (argv inp ! 2))))) 0.0002 2048"
    unfolding out by simp
  ultimately show ?thesis using load unfolding Let_def by blast
qed

text \<open>
  C10 on the test input.
\<close>

theorem C10_fixed_acquisition_witness:
  "main test_gamma test_input = Inr test_output \<and>
   length (data test_output) = 2048 \<and>
   (\<exists>pw rho. load_waveform (wav_file test_input) = Inr (pw, rho) \<and>
      data test_output =
        FID test_gamma (sequence test_gamma () pw rho) (Fm test_gamma ()) (Ho test_gamma ()) 0.0002 2048)"
proof -
  have m: "main test_gamma test_input = Inr test_output" by (rule test_main)
  have u: "offsetShifts test_gamma (sys_file test_input) x = ()" for x by simp
  from C10_fixed_acquisition [OF m] m show ?thesis unfolding Let_def u by blast
qed

end
